theory Spec2Isabelle
  imports Main "HOL-Library.Word"
begin

section \<open>Python values used by \<^verbatim>\<open>playwright/network.py\<close>\<close>

text \<open>
  A Python \<^verbatim>\<open>str\<close> is a \<^typ>\<open>string\<close>, one \<^typ>\<open>char\<close> per character (the
  characters up to U+00FF); a \<^verbatim>\<open>bytes\<close> value is a list of 8-bit words. Every exception the module can raise is a
  value of \<open>error\<close>; a function that can raise returns \<open>error + 'a\<close>.
\<close>

type_synonym bytes = "8 word list"

datatype error =
    KeyError
  | TypeError
  | UnicodeEncodeError
  | UnicodeDecodeError
  | ValueError
  | OSError
  | ParseError
  | ProtocolViolation
  | RemoteCallFailure string

subsection \<open>Dictionaries\<close>

text \<open>
  A Python \<^verbatim>\<open>dict\<close> keeps its items in insertion order and its keys unique. It is an
  association list; \<open>dict_setitem\<close> is \<^verbatim>\<open>d[k] = v\<close>: an existing key keeps its place and
  gets the new value, a new key goes to the end. \<open>dict_getitem\<close> is \<^verbatim>\<open>d[k]\<close>, which raises
  \<^verbatim>\<open>KeyError\<close> on a missing key.
\<close>

type_synonym ('k, 'v) dict = "('k \<times> 'v) list"

fun dict_setitem :: "('k, 'v) dict \<Rightarrow> 'k \<Rightarrow> 'v \<Rightarrow> ('k, 'v) dict" where
  "dict_setitem [] k v = [(k, v)]"
| "dict_setitem ((k', v') # d) k v =
     (if k' = k then (k, v) # d else (k', v') # dict_setitem d k v)"

definition dict_keys :: "('k, 'v) dict \<Rightarrow> 'k list" where
  "dict_keys d = map fst d"

definition dict_contains :: "'k \<Rightarrow> ('k, 'v) dict \<Rightarrow> bool" where
  "dict_contains k d = (k \<in> set (dict_keys d))"

definition dict_get :: "('k, 'v) dict \<Rightarrow> 'k \<Rightarrow> 'v option" where
  "dict_get d k = map_of d k"

definition dict_getitem :: "('k, 'v) dict \<Rightarrow> 'k \<Rightarrow> error + 'v" where
  "dict_getitem d k = (case map_of d k of None \<Rightarrow> Inl KeyError | Some v \<Rightarrow> Inr v)"

text \<open>\<^verbatim>\<open>dict(pairs)\<close> and a dict comprehension insert the items one after the other.\<close>

definition dict_of :: "('k \<times> 'v) list \<Rightarrow> ('k, 'v) dict" where
  "dict_of items = foldl (\<lambda>d (k, v). dict_setitem d k v) [] items"

section \<open>Header codec\<close>

text \<open>
  The wire form of a header is the \<^verbatim>\<open>Header\<close> dictionary \<^verbatim>\<open>{"name": ..., "value": ...}\<close>.
\<close>

record header =
  h_name :: string
  h_value :: string

text \<open>
  \<^verbatim>\<open>
  def serialize_headers(headers: Dict[str, str]) -> List[Header]:
      return [{"name": name, "value": value} for name, value in headers.items()]

  def parse_headers(headers: List[Header]) -> Dict[str, str]:
      return {header["name"]: header["value"] for header in headers}
  \<close>
\<close>

definition serialize_headers :: "(string, string) dict \<Rightarrow> header list" where
  "serialize_headers headers = map (\<lambda>(name, val). \<lparr>h_name = name, h_value = val\<rparr>) headers"

definition parse_headers :: "header list \<Rightarrow> (string, string) dict" where
  "parse_headers headers = dict_of (map (\<lambda>header. (h_name header, h_value header)) headers)"

section \<open>The standard library, as the module calls it\<close>

text \<open>
  The module calls \<^verbatim>\<open>str.lower\<close>, \<^verbatim>\<open>str.encode\<close>, \<^verbatim>\<open>bytes.decode\<close>,
  \<^verbatim>\<open>base64.b64encode\<close> and \<^verbatim>\<open>base64.b64decode\<close>. They are not code of the repository, so
  the model takes them as the fields of a library \<open>L\<close>; a field that returns \<open>None\<close> stands for
  the call raising its exception (\<^verbatim>\<open>UnicodeEncodeError\<close>, \<^verbatim>\<open>UnicodeDecodeError\<close>,
  and \<^verbatim>\<open>binascii.Error\<close> or \<^verbatim>\<open>ValueError\<close> for \<^verbatim>\<open>b64decode\<close>).
  \<open>b64encode L b\<close> is \<^verbatim>\<open>base64.b64encode(b).decode()\<close>, which cannot raise.
\<close>

record pylib =
  str_lower :: "string \<Rightarrow> string"
  str_encode :: "string \<Rightarrow> bytes option"
  bytes_decode :: "bytes \<Rightarrow> string option"
  b64encode :: "bytes \<Rightarrow> string"
  b64decode :: "string \<Rightarrow> bytes option"

text \<open>
  \<^verbatim>\<open>Path(path).read_bytes()\<close> and \<^verbatim>\<open>mimetypes.guess_type(str(Path(path)))[0]\<close> depend on the
  machine the module runs on: they are the fields of a host \<open>H\<close>. A \<^verbatim>\<open>path\<close> argument is a
  \<^verbatim>\<open>str\<close> or a \<^verbatim>\<open>pathlib.Path\<close>.
\<close>

datatype pathlike = PathStr string | PathObj string

record host =
  read_bytes :: "pathlike \<Rightarrow> bytes option"
  guess_type :: "pathlike \<Rightarrow> string option"

text \<open>\<^verbatim>\<open>str(n)\<close> for an integer \<open>n \<ge> 0\<close>: its decimal digits.\<close>

fun str_nat :: "nat \<Rightarrow> string" where
  "str_nat n =
     (if n < 10 then [char_of (48 + n)]
      else str_nat (n div 10) @ [char_of (48 + n mod 10)])"

declare str_nat.simps [simp del]

text \<open>
  Truth values: \<^verbatim>\<open>if path:\<close> holds for a \<^verbatim>\<open>str\<close> that is not empty and for every
  \<^verbatim>\<open>pathlib.Path\<close> object (and fails for \<^verbatim>\<open>None\<close>).
\<close>

fun truthy_path :: "pathlike \<Rightarrow> bool" where
  "truthy_path (PathStr s) = (s \<noteq> [])"
| "truthy_path (PathObj p) = True"

subsection \<open>A reference library\<close>

text \<open>
  Modelled from the Python standard library (CPython 3.8), which is not code of the
  repository: base64 as \<^verbatim>\<open>binascii\<close> computes it (the decoder is the lenient one
  \<^verbatim>\<open>base64.b64decode\<close> uses by default: it skips characters outside the alphabet and
  padding that is out of place), and \<^verbatim>\<open>lower\<close> and UTF-8 for characters up to U+00FF.
  The concrete examples of this theory are evaluated with it; the general theorems hold
  for every library.
\<close>

definition b64_alphabet :: string where
  "b64_alphabet = ''ABCDEFGHIJKLMNOPQRSTUVWXYZabcdefghijklmnopqrstuvwxyz0123456789+/''"

definition b64_char :: "nat \<Rightarrow> char" where
  "b64_char n = b64_alphabet ! n"

fun py_b64encode :: "bytes \<Rightarrow> string" where
  "py_b64encode [] = []"
| "py_b64encode [a] =
     (let x = unat a
      in [b64_char (x div 4), b64_char (x mod 4 * 16), CHR ''='', CHR ''=''])"
| "py_b64encode [a, b] =
     (let x = unat a; y = unat b
      in [b64_char (x div 4), b64_char (x mod 4 * 16 + y div 16), b64_char (y mod 16 * 4),
          CHR ''=''])"
| "py_b64encode (a # b # c # rest) =
     (let x = unat a; y = unat b; z = unat c
      in [b64_char (x div 4), b64_char (x mod 4 * 16 + y div 16),
          b64_char (y mod 16 * 4 + z div 64), b64_char (z mod 64)] @ py_b64encode rest)"

definition b64_val :: "char \<Rightarrow> nat option" where
  "b64_val c =
     (let n = of_char c :: nat
      in if 65 \<le> n \<and> n \<le> 90 then Some (n - 65)
         else if 97 \<le> n \<and> n \<le> 122 then Some (n - 71)
         else if 48 \<le> n \<and> n \<le> 57 then Some (n + 4)
         else if n = 43 then Some 62
         else if n = 47 then Some 63
         else None)"

text \<open>\<^verbatim>\<open>binascii_find_valid\<close>: the \<open>(num + 1)\<close>-th character that is a digit or the padding.\<close>

fun find_valid :: "string \<Rightarrow> nat \<Rightarrow> char option" where
  "find_valid [] num = None"
| "find_valid (c # s) num =
     (if b64_val c \<noteq> None \<or> c = CHR ''=''
      then (if num = 0 then Some c else find_valid s (num - 1))
      else find_valid s num)"

fun a2b_base64 :: "nat \<Rightarrow> nat \<Rightarrow> nat \<Rightarrow> string \<Rightarrow> bytes option" where
  "a2b_base64 quad_pos leftbits leftchar [] = (if leftbits \<noteq> 0 then None else Some [])"
| "a2b_base64 quad_pos leftbits leftchar (c # s) =
     (if c = CHR 0x0D \<or> c = CHR 0x0A \<or> c = CHR '' ''
      then a2b_base64 quad_pos leftbits leftchar s
      else if c = CHR ''=''
      then (if quad_pos < 2 \<or> (quad_pos = 2 \<and> find_valid (c # s) 1 \<noteq> Some (CHR ''=''))
            then a2b_base64 quad_pos leftbits leftchar s
            else Some [])
      else (case b64_val c of
              None \<Rightarrow> a2b_base64 quad_pos leftbits leftchar s
            | Some v \<Rightarrow>
                if leftbits + 6 \<ge> 8
                then map_option
                       (Cons (word_of_nat ((leftchar * 64 + v) div 2 ^ (leftbits + 6 - 8))))
                       (a2b_base64 ((quad_pos + 1) mod 4) (leftbits + 6 - 8)
                          ((leftchar * 64 + v) mod 2 ^ (leftbits + 6 - 8)) s)
                else a2b_base64 ((quad_pos + 1) mod 4) (leftbits + 6) (leftchar * 64 + v) s))"

definition py_b64decode :: "string \<Rightarrow> bytes option" where
  "py_b64decode s =
     (if \<exists>c \<in> set s. (of_char c :: nat) \<ge> 128 then None else a2b_base64 0 0 0 s)"

definition py_encode :: "string \<Rightarrow> bytes option" where
  "py_encode s =
     Some (concat (map (\<lambda>c. let n = of_char c :: nat
                            in if n < 128 then [word_of_nat n]
                               else [word_of_nat (192 + n div 64), word_of_nat (128 + n mod 64)])
                       s))"

fun py_decode :: "bytes \<Rightarrow> string option" where
  "py_decode [] = Some []"
| "py_decode [b] = (if unat b < 128 then Some [char_of (unat b)] else None)"
| "py_decode (b # b2 # bs) =
     (if unat b < 128 then map_option (Cons (char_of (unat b))) (py_decode (b2 # bs))
      else if (unat b = 194 \<or> unat b = 195) \<and> 128 \<le> unat b2 \<and> unat b2 < 192
      then map_option (Cons (char_of ((unat b - 192) * 64 + (unat b2 - 128)))) (py_decode bs)
      else None)"

definition py_lower :: "string \<Rightarrow> string" where
  "py_lower s =
     map (\<lambda>c. let n = of_char c :: nat
              in if (65 \<le> n \<and> n \<le> 90) \<or> (192 \<le> n \<and> n \<le> 222 \<and> n \<noteq> 215)
                 then char_of (n + 32) else c)
         s"

definition cpython :: pylib where
  "cpython =
     \<lparr>str_lower = py_lower, str_encode = py_encode, bytes_decode = py_decode,
      b64encode = py_b64encode, b64decode = py_b64decode\<rparr>"

section \<open>Objects and the channel\<close>

text \<open>
  \<^verbatim>\<open>Request\<close>, \<^verbatim>\<open>Route\<close> and \<^verbatim>\<open>Response\<close> are channel owners: each has a guid, the
  initializer the driver sent, and a channel to its remote counterpart. A reference to
  another object is that object's guid.
\<close>

type_synonym guid = string

datatype body = Text string | Bytes bytes

record fulfill_params =
  p_status :: "int option"
  p_headers :: "header list"
  p_body :: "string option"
  p_path :: "pathlike option"
  p_contentType :: "string option"
  p_isBase64 :: "bool option"

record continue_params =
  o_method :: "string option"
  o_headers :: "header list option"
  o_postData :: "string option"

datatype params =
    NoParams
  | AbortParams "string option"
  | FulfillParams fulfill_params
  | ContinueParams continue_params

datatype reply = NoReply | Binary string

text \<open>
  Modelled from the spec: \<^verbatim>\<open>Channel.send\<close> of \<^verbatim>\<open>playwright/connection.py\<close>, which is not
  among the sources. A call is one request/response exchange with the remote side: it
  names the object, the operation and its parameters; the remote side answers with a
  reply or the call fails with an error text (\<^verbatim>\<open>RemoteCallFailure\<close>). The state of the
  channel is the list of the calls issued so far; what the remote side answers may depend
  on them and is the parameter \<open>R\<close>.
\<close>

type_synonym call = "guid \<times> string \<times> params"

type_synonym remote = "call list \<Rightarrow> call \<Rightarrow> string + reply"

definition send :: "remote \<Rightarrow> guid \<Rightarrow> string \<Rightarrow> params \<Rightarrow> call list \<Rightarrow> (error + reply) \<times> call list" where
  "send R g m p calls =
     ((case R calls (g, m, p) of Inl e \<Rightarrow> Inl (RemoteCallFailure e) | Inr r \<Rightarrow> Inr r),
      calls @ [(g, m, p)])"

section \<open>Request\<close>

record request_initializer =
  i_url :: string
  i_method :: string
  i_resourceType :: string
  i_headers :: "header list"
  i_postData :: "string option"
  i_isNavigationRequest :: bool
  i_frame :: guid
  i_redirectedFrom :: "guid option"

record request =
  initializer :: request_initializer
  redirected_from :: "guid option"
  redirected_to :: "guid option"
  failure_text :: "string option"

text \<open>The objects of the connection, by guid.\<close>

type_synonym heap = "guid \<rightharpoonup> request"

text \<open>
  \<^verbatim>\<open>
  def __init__(self, parent, type, guid, initializer):
      super().__init__(parent, type, guid, initializer)
      self._redirected_from = from_nullable_channel(initializer.get("redirectedFrom"))
      self._redirected_to = None
      if self._redirected_from:
          self._redirected_from._redirected_to = self
      self._failure_text = None
  \<close>
  Modelled from the spec: \<^verbatim>\<open>ChannelOwner.__init__\<close> and \<^verbatim>\<open>from_nullable_channel\<close> of
  \<^verbatim>\<open>playwright/connection.py\<close>, which is not among the sources. The new object is stored
  under its guid with its initializer; the \<^verbatim>\<open>redirectedFrom\<close> of the initializer is a
  reference to the predecessor, an object that exists already, or is absent. The
  predecessor is updated in place.
\<close>

definition Request_init :: "heap \<Rightarrow> guid \<Rightarrow> request_initializer \<Rightarrow> heap" where
  "Request_init h guid init =
     (let self = \<lparr>initializer = init, redirected_from = i_redirectedFrom init,
                  redirected_to = None, failure_text = None\<rparr>;
          h1 = h(guid \<mapsto> self)
      in case redirected_from self of
           None \<Rightarrow> h1
         | Some a \<Rightarrow>
             (case h1 a of
                None \<Rightarrow> h1
              | Some pred \<Rightarrow> h1(a \<mapsto> pred\<lparr>redirected_to := Some guid\<rparr>)))"

definition Request_redirectedFrom :: "request \<Rightarrow> guid option" where
  "Request_redirectedFrom self = redirected_from self"

definition Request_redirectedTo :: "request \<Rightarrow> guid option" where
  "Request_redirectedTo self = redirected_to self"

definition Request_headers :: "request \<Rightarrow> (string, string) dict" where
  "Request_headers self = parse_headers (i_headers (initializer self))"

text \<open>
  \<^verbatim>\<open>
  def postDataBuffer(self) -> Optional[bytes]:
      b64_content = self._initializer.get("postData")
      if not b64_content:
          return None
      return base64.b64decode(b64_content)
  \<close>
\<close>

definition Request_postDataBuffer :: "pylib \<Rightarrow> request \<Rightarrow> error + bytes option" where
  "Request_postDataBuffer L self =
     (case i_postData (initializer self) of
        None \<Rightarrow> Inr None
      | Some b64_content \<Rightarrow>
          if b64_content = [] then Inr None
          else (case b64decode L b64_content of
                  None \<Rightarrow> Inl ValueError
                | Some data \<Rightarrow> Inr (Some data)))"

text \<open>
  \<^verbatim>\<open>
  def postData(self) -> Optional[str]:
      data = self.postDataBuffer
      if not data:
          return None
      return data.decode()
  \<close>
\<close>

definition Request_postData :: "pylib \<Rightarrow> request \<Rightarrow> error + string option" where
  "Request_postData L self =
     (case Request_postDataBuffer L self of
        Inl e \<Rightarrow> Inl e
      | Inr None \<Rightarrow> Inr None
      | Inr (Some data) \<Rightarrow>
          if data = [] then Inr None
          else (case bytes_decode L data of
                  None \<Rightarrow> Inl UnicodeDecodeError
                | Some s \<Rightarrow> Inr (Some s)))"

text \<open>
  \<^verbatim>\<open>
  def postDataJSON(self) -> Optional[Dict]:
      post_data = self.postData
      if not post_data:
          return None
      content_type = self.headers["content-type"]
      if not content_type:
          return None
      if content_type == "application/x-www-form-urlencoded":
          return dict(parse.parse_qsl(post_data))
      return json.loads(post_data)
  \<close>
  \<^verbatim>\<open>urllib.parse.parse_qsl\<close> and \<^verbatim>\<open>json.loads\<close> are parameters; \<open>json_loads\<close> returns
  \<open>None\<close> where \<^verbatim>\<open>json.loads\<close> raises \<^verbatim>\<open>JSONDecodeError\<close>, the \<^verbatim>\<open>ParseError\<close> of the
  specification. The result is a dictionary of form fields or a decoded JSON value.
\<close>

datatype 'j post_data_json = FormDict "(string, string) dict" | JsonValue 'j

definition Request_postDataJSON ::
  "pylib \<Rightarrow> (string \<Rightarrow> (string \<times> string) list) \<Rightarrow> (string \<Rightarrow> 'j option) \<Rightarrow> request
     \<Rightarrow> error + 'j post_data_json option" where
  "Request_postDataJSON L parse_qsl json_loads self =
     (case Request_postData L self of
        Inl e \<Rightarrow> Inl e
      | Inr None \<Rightarrow> Inr None
      | Inr (Some post_data) \<Rightarrow>
          if post_data = [] then Inr None
          else (case dict_getitem (Request_headers self) ''content-type'' of
                  Inl e \<Rightarrow> Inl e
                | Inr content_type \<Rightarrow>
                    if content_type = [] then Inr None
                    else if content_type = ''application/x-www-form-urlencoded''
                    then Inr (Some (FormDict (dict_of (parse_qsl post_data))))
                    else (case json_loads post_data of
                            None \<Rightarrow> Inl ParseError
                          | Some v \<Rightarrow> Inr (Some (JsonValue v)))))"

section \<open>Route\<close>

text \<open>A route has its guid and the request it intercepts; it has no other state.\<close>

record route =
  route_guid :: guid
  route_request :: guid

text \<open>
  \<^verbatim>\<open>
  async def abort(self, errorCode: str = None) -> None:
      await self._channel.send("abort", locals_to_params(locals()))
  \<close>
  Modelled from the spec: \<^verbatim>\<open>locals_to_params\<close> of \<^verbatim>\<open>playwright/helper.py\<close>, which is not
  among the sources. The request of a call has a field for each argument the caller
  supplied, under the argument's name, and none for an argument left out
  (\<^verbatim>\<open>errorCode?\<close>, \<^verbatim>\<open>status?\<close>, ...): a parameter record with optional fields.
\<close>

definition Route_abort :: "remote \<Rightarrow> route \<Rightarrow> string option \<Rightarrow> call list \<Rightarrow> (error + unit) \<times> call list" where
  "Route_abort R self errorCode calls =
     (case send R (route_guid self) ''abort'' (AbortParams errorCode) calls of
        (Inl e, calls') \<Rightarrow> (Inl e, calls')
      | (Inr r, calls') \<Rightarrow> (Inr (), calls'))"

text \<open>
  \<^verbatim>\<open>
  async def fulfill(self, status=None, headers=None, body=None, path=None, contentType=None):
      params = locals_to_params(locals())
      length = 0
      if isinstance(body, str):
          params["body"] = body
          params["isBase64"] = False
          length = len(body.encode())
      elif isinstance(body, bytes):
          params["body"] = base64.b64encode(body).decode()
          params["isBase64"] = True
          length = len(body)
      elif path:
          del params["path"]
          file_content = Path(path).read_bytes()
          params["body"] = base64.b64encode(file_content).decode()
          params["isBase64"] = True
          length = len(file_content)

      headers = {k.lower(): str(v) for k, v in params.get("headers", {}).items()}
      if params.get("contentType"):
          headers["content-type"] = params["contentType"]
      elif path:
          headers["content-type"] = (
              mimetypes.guess_type(str(Path(path)))[0] or "application/octet-stream"
          )
      if length and "content-length" not in headers:
          headers["content-length"] = str(length)
      params["headers"] = serialize_headers(headers)
      await self._channel.send("fulfill", params)
  \<close>
  \<open>fulfill_body\<close> is the first \<^verbatim>\<open>if\<close>: it gives \<^verbatim>\<open>params.get("body")\<close>,
  \<^verbatim>\<open>params.get("isBase64")\<close>, \<^verbatim>\<open>params.get("path")\<close> and \<^verbatim>\<open>length\<close>. \<open>fulfill_headers\<close>
  is the dictionary \<^verbatim>\<open>headers\<close> before it is serialized, \<open>from_path\<close> in it the
  \<^verbatim>\<open>elif path:\<close> branch. \<open>Route_fulfill_params\<close> is \<^verbatim>\<open>params\<close> as it is sent. The header
  values are \<^verbatim>\<open>str\<close> already, so \<^verbatim>\<open>str(v)\<close> is \<open>v\<close>.
\<close>

definition fulfill_body ::
  "pylib \<Rightarrow> host \<Rightarrow> body option \<Rightarrow> pathlike option
     \<Rightarrow> error + (string option \<times> bool option \<times> pathlike option \<times> nat)" where
  "fulfill_body L H body path =
     (case body of
        Some (Text t) \<Rightarrow>
          (case str_encode L t of
             None \<Rightarrow> Inl UnicodeEncodeError
           | Some encoded \<Rightarrow> Inr (Some t, Some False, path, length encoded))
      | Some (Bytes b) \<Rightarrow> Inr (Some (b64encode L b), Some True, path, length b)
      | None \<Rightarrow>
          (case path of
             None \<Rightarrow> Inr (None, None, None, 0)
           | Some p \<Rightarrow>
               if truthy_path p
               then (case read_bytes H p of
                       None \<Rightarrow> Inl OSError
                     | Some file_content \<Rightarrow>
                         Inr (Some (b64encode L file_content), Some True, None,
                              length file_content))
               else Inr (None, None, Some p, 0)))"

definition fulfill_headers ::
  "pylib \<Rightarrow> host \<Rightarrow> (string, string) dict option \<Rightarrow> pathlike option \<Rightarrow> string option \<Rightarrow> nat
     \<Rightarrow> (string, string) dict" where
  "fulfill_headers L H headers path contentType len =
     (let headers0 = dict_of (map (\<lambda>(k, v). (str_lower L k, v))
                                  (case headers of None \<Rightarrow> [] | Some d \<Rightarrow> d));
          from_path =
            (case path of
               None \<Rightarrow> headers0
             | Some p \<Rightarrow>
                 if truthy_path p
                 then dict_setitem headers0 ''content-type''
                        (case guess_type H p of
                           None \<Rightarrow> ''application/octet-stream''
                         | Some g \<Rightarrow> if g = [] then ''application/octet-stream'' else g)
                 else headers0);
          headers1 =
            (case contentType of
               None \<Rightarrow> from_path
             | Some ct \<Rightarrow> if ct \<noteq> [] then dict_setitem headers0 ''content-type'' ct else from_path)
      in if len \<noteq> 0 \<and> \<not> dict_contains ''content-length'' headers1
         then dict_setitem headers1 ''content-length'' (str_nat len)
         else headers1)"

definition Route_fulfill_params ::
  "pylib \<Rightarrow> host \<Rightarrow> int option \<Rightarrow> (string, string) dict option \<Rightarrow> body option
     \<Rightarrow> pathlike option \<Rightarrow> string option \<Rightarrow> error + fulfill_params" where
  "Route_fulfill_params L H status headers body path contentType =
     (case fulfill_body L H body path of
        Inl e \<Rightarrow> Inl e
      | Inr (params_body, params_isBase64, params_path, len) \<Rightarrow>
          Inr \<lparr>p_status = status,
               p_headers = serialize_headers (fulfill_headers L H headers path contentType len),
               p_body = params_body, p_path = params_path, p_contentType = contentType,
               p_isBase64 = params_isBase64\<rparr>)"

definition Route_fulfill ::
  "pylib \<Rightarrow> host \<Rightarrow> remote \<Rightarrow> route \<Rightarrow> int option \<Rightarrow> (string, string) dict option \<Rightarrow> body option
     \<Rightarrow> pathlike option \<Rightarrow> string option \<Rightarrow> call list \<Rightarrow> (error + unit) \<times> call list" where
  "Route_fulfill L H R self status headers body path contentType calls =
     (case Route_fulfill_params L H status headers body path contentType of
        Inl e \<Rightarrow> (Inl e, calls)
      | Inr params \<Rightarrow>
          (case send R (route_guid self) ''fulfill'' (FulfillParams params) calls of
             (Inl e, calls') \<Rightarrow> (Inl e, calls')
           | (Inr r, calls') \<Rightarrow> (Inr (), calls')))"

text \<open>
  \<^verbatim>\<open>
  async def continue_(self, method=None, headers=None, postData=None):
      overrides: ContinueParameters = {}
      if method:
          overrides["method"] = method
      if headers:
          overrides["headers"] = serialize_headers(headers)
      if isinstance(postData, str):
          overrides["postData"] = base64.b64encode(postData.encode()).decode()
      elif isinstance(postData, bytes):
          overrides["postData"] = base64.b64encode(postData).decode()
      await self._channel.send("continue", cast(Any, overrides))
  \<close>
\<close>

definition Route_continue_overrides ::
  "pylib \<Rightarrow> string option \<Rightarrow> (string, string) dict option \<Rightarrow> body option
     \<Rightarrow> error + continue_params" where
  "Route_continue_overrides L method_arg headers postData =
     (case (case postData of
              Some (Text t) \<Rightarrow>
                (case str_encode L t of
                   None \<Rightarrow> Inl UnicodeEncodeError
                 | Some encoded \<Rightarrow> Inr (Some (b64encode L encoded)))
            | Some (Bytes b) \<Rightarrow> Inr (Some (b64encode L b))
            | None \<Rightarrow> Inr None) of
        Inl e \<Rightarrow> Inl e
      | Inr overrides_postData \<Rightarrow>
          Inr \<lparr>o_method = (case method_arg of
                             None \<Rightarrow> None
                           | Some m \<Rightarrow> if m \<noteq> [] then Some m else None),
               o_headers = (case headers of
                              None \<Rightarrow> None
                            | Some d \<Rightarrow> if d \<noteq> [] then Some (serialize_headers d) else None),
               o_postData = overrides_postData\<rparr>)"

text \<open>\<open>Route_continue\<close> is \<^verbatim>\<open>continue_\<close>.\<close>

definition Route_continue ::
  "pylib \<Rightarrow> remote \<Rightarrow> route \<Rightarrow> string option \<Rightarrow> (string, string) dict option \<Rightarrow> body option
     \<Rightarrow> call list \<Rightarrow> (error + unit) \<times> call list" where
  "Route_continue L R self method_arg headers postData calls =
     (case Route_continue_overrides L method_arg headers postData of
        Inl e \<Rightarrow> (Inl e, calls)
      | Inr overrides \<Rightarrow>
          (case send R (route_guid self) ''continue'' (ContinueParams overrides) calls of
             (Inl e, calls') \<Rightarrow> (Inl e, calls')
           | (Inr r, calls') \<Rightarrow> (Inr (), calls')))"

section \<open>Response\<close>

record response_initializer =
  r_url :: string
  r_status :: int
  r_statusText :: string
  r_headers :: "header list"
  r_request :: guid

record response =
  response_guid :: guid
  response_initializer :: response_initializer

text \<open>
  \<^verbatim>\<open>
  async def body(self) -> bytes:
      binary = await self._channel.send("body")
      return base64.b64decode(binary)
  \<close>
  \<^verbatim>\<open>b64decode\<close> raises \<^verbatim>\<open>TypeError\<close> when the reply is not a string. The class has no
  attribute that holds a body.
\<close>

definition Response_body :: "pylib \<Rightarrow> remote \<Rightarrow> response \<Rightarrow> call list \<Rightarrow> (error + bytes) \<times> call list" where
  "Response_body L R self calls =
     (case send R (response_guid self) ''body'' NoParams calls of
        (Inl e, calls') \<Rightarrow> (Inl e, calls')
      | (Inr NoReply, calls') \<Rightarrow> (Inl TypeError, calls')
      | (Inr (Binary binary), calls') \<Rightarrow>
          (case b64decode L binary of
             None \<Rightarrow> (Inl ValueError, calls')
           | Some data \<Rightarrow> (Inr data, calls')))"

section \<open>Example objects\<close>

text \<open>The objects, the remote sides and the host of the concrete examples.\<close>

definition example_request :: "header list \<Rightarrow> string option \<Rightarrow> guid option \<Rightarrow> request" where
  "example_request hs post_data pred =
     \<lparr>initializer =
        \<lparr>i_url = ''http://example.com/api'', i_method = ''POST'', i_resourceType = ''fetch'',
         i_headers = hs, i_postData = post_data, i_isNavigationRequest = False,
         i_frame = ''frame@1'', i_redirectedFrom = pred\<rparr>,
      redirected_from = pred, redirected_to = None, failure_text = None\<rparr>"

definition example_heap :: heap where
  "example_heap = [''request@1'' \<mapsto> example_request [] None None]"

definition example_route :: route where
  "example_route = \<lparr>route_guid = ''route@1'', route_request = ''request@1''\<rparr>"

definition example_response :: response where
  "example_response =
     \<lparr>response_guid = ''response@1'',
      response_initializer =
        \<lparr>r_url = ''http://example.com/api'', r_status = 200, r_statusText = ''OK'',
         r_headers = [], r_request = ''request@1''\<rparr>\<rparr>"

text \<open>A remote side that accepts every call, and one that answers every call with \<open>"aGk="\<close>.\<close>

definition accept_all :: remote where
  "accept_all calls c = Inr NoReply"

definition reply_hi :: remote where
  "reply_hi calls c = Inr (Binary ''aGk='')"

text \<open>A host with two files, one of them of a type \<^verbatim>\<open>mimetypes\<close> does not know.\<close>

definition example_host :: host where
  "example_host =
     \<lparr>read_bytes = map_of [(PathStr ''icon.png'', [0x89, 0x50, 0x4E, 0x47]),
                           (PathStr ''data.unknown'', [0x01, 0x02, 0x03])],
      guess_type = map_of [(PathStr ''icon.png'', ''image/png'')]\<rparr>"

section \<open>Properties of dictionaries\<close>

lemma map_of_dict_setitem: "map_of (dict_setitem d k v) = (map_of d)(k \<mapsto> v)"
  by (induction d) (auto simp: fun_eq_iff)

lemma dict_setitem_fresh: "k \<notin> fst ` set d \<Longrightarrow> dict_setitem d k v = d @ [(k, v)]"
  by (induction d) auto

lemma keys_dict_setitem_present:
  "k \<in> fst ` set d \<Longrightarrow> map fst (dict_setitem d k v) = map fst d"
proof (induction d)
  case Nil
  then show ?case by simp
next
  case (Cons p d)
  obtain k' v' where p: "p = (k', v')" by (cases p)
  show ?case
  proof (cases "k' = k")
    case True
    then show ?thesis by (simp add: p)
  next
    case False
    with Cons.prems p have "k \<in> fst ` set d" by auto
    with Cons.IH False show ?thesis by (simp add: p)
  qed
qed

lemma keys_dict_setitem:
  "map fst (dict_setitem d k v) = (if k \<in> fst ` set d then map fst d else map fst d @ [k])"
  by (simp add: keys_dict_setitem_present dict_setitem_fresh)

lemma keyset_dict_setitem: "fst ` set (dict_setitem d k v) = insert k (fst ` set d)"
proof -
  have "set (map fst (dict_setitem d k v)) = insert k (set (map fst d))"
    unfolding keys_dict_setitem by auto
  then show ?thesis by simp
qed

lemma distinct_dict_setitem: "distinct (map fst d) \<Longrightarrow> distinct (map fst (dict_setitem d k v))"
  unfolding keys_dict_setitem by auto

lemma foldl_setitem_distinct:
  "distinct (map fst (d @ xs)) \<Longrightarrow> foldl (\<lambda>d (k, v). dict_setitem d k v) d xs = d @ xs"
proof (induction xs arbitrary: d)
  case Nil
  then show ?case by simp
next
  case (Cons x xs)
  obtain k v where x: "x = (k, v)" by (cases x)
  from Cons.prems x have fresh: "k \<notin> fst ` set d" by auto
  from Cons.prems x have "distinct (map fst ((d @ [(k, v)]) @ xs))" by simp
  from Cons.IH [OF this] show ?case
    by (simp add: x dict_setitem_fresh [OF fresh])
qed

lemma map_of_foldl_setitem:
  "map_of (foldl (\<lambda>d (k, v). dict_setitem d k v) d xs) = map_of d ++ map_of (rev xs)"
proof (induction xs arbitrary: d)
  case Nil
  then show ?case by simp
next
  case (Cons x xs)
  obtain k v where x: "x = (k, v)" by (cases x)
  show ?case
    by (simp add: x Cons.IH map_of_dict_setitem map_add_def fun_eq_iff split: option.splits)
qed

lemma distinct_foldl_setitem:
  "distinct (map fst d) \<Longrightarrow> distinct (map fst (foldl (\<lambda>d (k, v). dict_setitem d k v) d xs))"
  by (induction xs arbitrary: d) (auto simp: distinct_dict_setitem)

lemma keys_foldl_setitem:
  "fst ` set (foldl (\<lambda>d (k, v). dict_setitem d k v) d xs) = fst ` set d \<union> fst ` set xs"
proof (induction xs arbitrary: d)
  case Nil
  then show ?case by simp
next
  case (Cons x xs)
  obtain k v where x: "x = (k, v)" by (cases x)
  show ?case by (simp add: x Cons.IH keyset_dict_setitem)
qed

lemma dict_of_distinct: "distinct (map fst xs) \<Longrightarrow> dict_of xs = xs"
  using foldl_setitem_distinct [of "[]" xs] by (simp add: dict_of_def)

lemma map_of_dict_of: "map_of (dict_of xs) = map_of (rev xs)"
  by (simp add: dict_of_def map_of_foldl_setitem)

lemma distinct_dict_of: "distinct (map fst (dict_of xs))"
  by (simp add: dict_of_def distinct_foldl_setitem)

lemma keys_dict_of: "fst ` set (dict_of xs) = fst ` set xs"
  using keys_foldl_setitem [of "[]" xs] by (simp add: dict_of_def)

lemma map_of_rev_last:
  "map_of (rev xs) k =
     (case filter (\<lambda>p. fst p = k) xs of [] \<Rightarrow> None | y # ys \<Rightarrow> Some (snd (last (y # ys))))"
proof (induction xs rule: rev_induct)
  case Nil
  then show ?case by simp
next
  case (snoc x xs)
  then show ?case by (cases x) (auto split: list.splits)
qed

section \<open>Header codec: round trip and duplicates\<close>

lemma unserialize_headers:
  "map (\<lambda>header. (h_name header, h_value header)) (serialize_headers M) = M"
  by (induction M) (auto simp: serialize_headers_def)

lemma parse_headers_serialize:
  "distinct (map fst M) \<Longrightarrow> parse_headers (serialize_headers M) = M"
  by (simp add: parse_headers_def unserialize_headers dict_of_distinct)

lemma names_serialize_headers: "map h_name (serialize_headers M) = map fst M"
  by (induction M) (auto simp: serialize_headers_def)

lemma keys_parse_headers: "fst ` set (parse_headers hs) = h_name ` set hs"
  by (simp add: parse_headers_def keys_dict_of image_image)

text \<open>
  C8. For a header mapping \<open>M\<close> with unique keys, parsing the serialized list gives \<open>M\<close>
  back, items in the same order; the serialized list has one \<open>{name, value}\<close> entry per
  item of \<open>M\<close>, in the insertion order of \<open>M\<close>.
\<close>

theorem parse_serialize_roundtrip:
  assumes "distinct (dict_keys M)"
  shows "parse_headers (serialize_headers M) = M
    \<and> length (serialize_headers M) = length M
    \<and> map h_name (serialize_headers M) = map fst M
    \<and> map h_value (serialize_headers M) = map snd M"
proof -
  from assms have "parse_headers (serialize_headers M) = M"
    by (simp add: dict_keys_def parse_headers_serialize)
  moreover have "map h_name (serialize_headers M) = map fst M"
    by (rule names_serialize_headers)
  moreover have "map h_value (serialize_headers M) = map snd M"
    by (induction M) (auto simp: serialize_headers_def)
  ultimately show ?thesis by (simp add: serialize_headers_def)
qed

theorem parse_serialize_roundtrip_witness:
  "distinct (dict_keys [(''b'', ''2''), (''a'', ''1'')])
   \<and> parse_headers (serialize_headers [(''b'', ''2''), (''a'', ''1'')])
       = [(''b'', ''2''), (''a'', ''1'')]
   \<and> map h_name (serialize_headers [(''b'', ''2''), (''a'', ''1'')]) = [''b'', ''a'']"
  using parse_serialize_roundtrip [of "[(''b'', ''2''), (''a'', ''1'')]"]
  by (simp add: dict_keys_def)

text \<open>
  C9. \<open>parse_headers\<close> goes through the list from left to right, each entry written into
  the dictionary built so far; the value found under a name is the value of the last
  entry that has exactly this name. In particular the list \<open>[("A", "1"), ("A", "2")]\<close>
  parses to \<open>{"A": "2"}\<close>.
\<close>

theorem parse_headers_last_wins:
  "parse_headers [] = []
   \<and> parse_headers (hs @ [h]) = dict_setitem (parse_headers hs) (h_name h) (h_value h)
   \<and> dict_get (parse_headers hs) k =
       (case filter (\<lambda>header. h_name header = k) hs of
          [] \<Rightarrow> None
        | header # rest \<Rightarrow> Some (h_value (last (header # rest))))
   \<and> parse_headers [\<lparr>h_name = ''A'', h_value = ''1''\<rparr>, \<lparr>h_name = ''A'', h_value = ''2''\<rparr>]
       = [(''A'', ''2'')]"
proof -
  let ?items = "map (\<lambda>header. (h_name header, h_value header)) hs"
  have "dict_get (parse_headers hs) k = map_of (rev ?items) k"
    by (simp add: dict_get_def parse_headers_def map_of_dict_of)
  also have "\<dots> = (case filter (\<lambda>p. fst p = k) ?items of
                      [] \<Rightarrow> None | y # ys \<Rightarrow> Some (snd (last (y # ys))))"
    by (rule map_of_rev_last)
  also have "filter (\<lambda>p. fst p = k) ?items
      = map (\<lambda>header. (h_name header, h_value header)) (filter (\<lambda>header. h_name header = k) hs)"
    by (simp add: filter_map comp_def)
  finally have "dict_get (parse_headers hs) k =
      (case filter (\<lambda>header. h_name header = k) hs of
         [] \<Rightarrow> None
       | header # rest \<Rightarrow> Some (h_value (last (header # rest))))"
    by (simp add: last_map split: list.splits)
  then show ?thesis
    by (simp add: parse_headers_def dict_of_def)
qed

section \<open>Request: the redirect chain\<close>

text \<open>
  C7. Constructing a request \<open>B\<close> (under a new guid) with predecessor \<open>A\<close> leaves
  \<open>B.redirectedFrom = A\<close> and \<open>A.redirectedTo = B\<close>; \<open>A\<close> is otherwise unchanged, its
  \<open>redirectedFrom\<close> included, and so is every other object. A request constructed
  without a predecessor has neither \<open>redirectedFrom\<close> nor \<open>redirectedTo\<close>, and no other
  object changes.
\<close>

theorem Request_init_redirect_chain:
  assumes "b \<notin> dom h"
  shows "(\<forall>a A. i_redirectedFrom init = Some a \<and> h a = Some A \<longrightarrow>
            (\<exists>B. Request_init h b init b = Some B
                 \<and> Request_redirectedFrom B = Some a
                 \<and> Request_redirectedTo B = None
                 \<and> initializer B = init)
            \<and> Request_init h b init a = Some (A\<lparr>redirected_to := Some b\<rparr>)
            \<and> Request_redirectedTo (A\<lparr>redirected_to := Some b\<rparr>) = Some b
            \<and> Request_redirectedFrom (A\<lparr>redirected_to := Some b\<rparr>) = Request_redirectedFrom A
            \<and> (\<forall>g. g \<noteq> a \<and> g \<noteq> b \<longrightarrow> Request_init h b init g = h g))
       \<and> (i_redirectedFrom init = None \<longrightarrow>
            (\<exists>B. Request_init h b init b = Some B
                 \<and> Request_redirectedFrom B = None
                 \<and> Request_redirectedTo B = None
                 \<and> initializer B = init)
            \<and> (\<forall>g. g \<noteq> b \<longrightarrow> Request_init h b init g = h g))"
proof (intro conjI allI impI)
  fix a A
  assume pre: "i_redirectedFrom init = Some a \<and> h a = Some A"
  with assms have ne: "a \<noteq> b" by auto
  from pre ne show "\<exists>B. Request_init h b init b = Some B
      \<and> Request_redirectedFrom B = Some a \<and> Request_redirectedTo B = None \<and> initializer B = init"
    by (simp add: Request_init_def Request_redirectedFrom_def Request_redirectedTo_def)
  from pre ne show "Request_init h b init a = Some (A\<lparr>redirected_to := Some b\<rparr>)"
    by (simp add: Request_init_def)
  show "Request_redirectedTo (A\<lparr>redirected_to := Some b\<rparr>) = Some b"
    by (simp add: Request_redirectedTo_def)
  show "Request_redirectedFrom (A\<lparr>redirected_to := Some b\<rparr>) = Request_redirectedFrom A"
    by (simp add: Request_redirectedFrom_def)
  fix g
  assume "g \<noteq> a \<and> g \<noteq> b"
  with pre ne show "Request_init h b init g = h g"
    by (simp add: Request_init_def)
next
  assume none: "i_redirectedFrom init = None"
  then show "\<exists>B. Request_init h b init b = Some B
      \<and> Request_redirectedFrom B = None \<and> Request_redirectedTo B = None \<and> initializer B = init"
    by (simp add: Request_init_def Request_redirectedFrom_def Request_redirectedTo_def)
  fix g
  assume "g \<noteq> b"
  with none show "Request_init h b init g = h g"
    by (simp add: Request_init_def)
qed

theorem Request_init_redirect_chain_witness:
  "''request@2'' \<notin> dom example_heap
   \<and> Request_init example_heap ''request@2''
         (initializer (example_request [] None (Some ''request@1''))) ''request@1''
       = Some ((example_request [] None None)\<lparr>redirected_to := Some ''request@2''\<rparr>)
   \<and> (\<exists>B. Request_init example_heap ''request@2''
              (initializer (example_request [] None (Some ''request@1''))) ''request@2'' = Some B
          \<and> Request_redirectedFrom B = Some ''request@1'')"
proof -
  have fresh: "''request@2'' \<notin> dom example_heap"
    by (simp add: example_heap_def)
  have pre: "i_redirectedFrom (initializer (example_request [] None (Some ''request@1'')))
               = Some ''request@1''
             \<and> example_heap ''request@1'' = Some (example_request [] None None)"
    by (simp add: example_heap_def example_request_def)
  from Request_init_redirect_chain [OF fresh, THEN conjunct1, rule_format, OF pre] fresh
  show ?thesis by blast
qed

section \<open>Request: the post data\<close>

lemma postDataJSON_KeyError:
  assumes "Request_postData L self = Inr (Some post_data)" and "post_data \<noteq> []"
    and "''content-type'' \<notin> h_name ` set (i_headers (initializer self))"
  shows "Request_postDataJSON L parse_qsl json_loads self = Inl KeyError"
proof -
  have "fst ` set (Request_headers self) = h_name ` set (i_headers (initializer self))"
    by (simp add: Request_headers_def keys_parse_headers)
  with assms(3) have "map_of (Request_headers self) ''content-type'' = None"
    by (simp add: map_of_eq_None_iff)
  with assms(1,2) show ?thesis
    by (simp add: Request_postDataJSON_def dict_getitem_def)
qed

text \<open>
  C2 at the failing input: a request with the payload \<open>{}\<close> and no header at all, or
  with a header named \<open>Content-Type\<close>. \<open>postDataJSON\<close> raises \<open>KeyError\<close> where the claim
  says it returns nothing.
\<close>

theorem postDataJSON_without_content_type:
  "Request_postData cpython (example_request [] (Some ''e30='') None) = Inr (Some ''{}'')
   \<and> Request_postDataJSON cpython parse_qsl json_loads (example_request [] (Some ''e30='') None)
       = Inl KeyError
   \<and> Request_postDataJSON cpython parse_qsl json_loads
         (example_request [\<lparr>h_name = ''Content-Type'', h_value = ''application/json''\<rparr>]
            (Some ''e30='') None)
       = Inl KeyError"
proof -
  have data: "Request_postData cpython (example_request hs (Some ''e30='') None) = Inr (Some ''{}'')"
    for hs
  proof -
    have "py_b64decode ''e30='' = Some [0x7b, 0x7d]" by code_simp
    moreover have "py_decode [0x7b, 0x7d] = Some ''{}''" by code_simp
    ultimately show ?thesis
      by (simp add: Request_postData_def Request_postDataBuffer_def example_request_def
          cpython_def)
  qed
  have "Request_postDataJSON cpython parse_qsl json_loads (example_request [] (Some ''e30='') None)
       = Inl KeyError"
    by (rule postDataJSON_KeyError [OF data]) (simp_all add: example_request_def)
  moreover have "Request_postDataJSON cpython parse_qsl json_loads
         (example_request [\<lparr>h_name = ''Content-Type'', h_value = ''application/json''\<rparr>]
            (Some ''e30='') None)
       = Inl KeyError"
    by (rule postDataJSON_KeyError [OF data]) (simp_all add: example_request_def)
  ultimately show ?thesis using data by simp
qed

text \<open>
  C10 as stated fails for \<open>postDataBuffer\<close>: a payload that is not the empty string and
  decodes to no bytes, such as \<open>"===="\<close>, gives the empty byte string, not nothing.
\<close>

theorem postDataBuffer_zero_bytes_counterexample:
  "Request_postDataBuffer cpython (example_request [] (Some ''===='') None) = Inr (Some [])
   \<and> Request_postDataBuffer cpython (example_request [] None None) = Inr None"
  by (simp add: Request_postDataBuffer_def example_request_def cpython_def py_b64decode_def
      b64_val_def)

text \<open>
  C10, amended. When the initializer has no payload or the empty string as payload,
  \<open>postDataBuffer\<close>, \<open>postData\<close> and \<open>postDataJSON\<close> all return nothing. When the payload
  is a string that is not empty and decodes to zero bytes, \<open>postData\<close> and
  \<open>postDataJSON\<close> return nothing, and \<open>postDataBuffer\<close> returns the empty byte string.
\<close>

theorem postData_empty_payload:
  "(i_postData (initializer self) = None \<or> i_postData (initializer self) = Some []
      \<longrightarrow> Request_postDataBuffer L self = Inr None
        \<and> Request_postData L self = Inr None
        \<and> Request_postDataJSON L parse_qsl json_loads self = Inr None)
   \<and> (\<forall>b64_content. i_postData (initializer self) = Some b64_content \<and> b64_content \<noteq> []
          \<and> b64decode L b64_content = Some []
      \<longrightarrow> Request_postDataBuffer L self = Inr (Some [])
        \<and> Request_postData L self = Inr None
        \<and> Request_postDataJSON L parse_qsl json_loads self = Inr None)"
  by (auto simp: Request_postDataBuffer_def Request_postData_def Request_postDataJSON_def)

theorem postData_empty_payload_witness:
  "i_postData (initializer (example_request [] (Some []) None)) = Some []
   \<and> Request_postDataBuffer cpython (example_request [] (Some []) None) = Inr None
   \<and> Request_postData cpython (example_request [] (Some []) None) = Inr None
   \<and> (\<forall>parse_qsl json_loads :: string \<Rightarrow> unit option.
        Request_postDataJSON cpython parse_qsl json_loads (example_request [] (Some []) None)
          = Inr None)
   \<and> i_postData (initializer (example_request [] (Some ''===='') None)) = Some ''====''
   \<and> b64decode cpython ''===='' = Some []
   \<and> Request_postData cpython (example_request [] (Some ''===='') None) = Inr None
   \<and> (\<forall>parse_qsl json_loads :: string \<Rightarrow> unit option.
        Request_postDataJSON cpython parse_qsl json_loads (example_request [] (Some ''===='') None)
          = Inr None)"
proof -
  have empty: "i_postData (initializer (example_request [] (Some []) None)) = Some []"
    by (simp add: example_request_def)
  have pad: "i_postData (initializer (example_request [] (Some ''===='') None)) = Some ''====''
      \<and> ''===='' \<noteq> [] \<and> b64decode cpython ''===='' = Some []"
    by (simp add: example_request_def cpython_def py_b64decode_def b64_val_def)
  note first = postData_empty_payload [of "example_request [] (Some []) None" cpython,
      THEN conjunct1, rule_format, OF disjI2, OF empty]
  note second = postData_empty_payload [of "example_request [] (Some ''===='') None" cpython,
      THEN conjunct2, rule_format, OF pad]
  from first second empty pad show ?thesis by blast
qed

section \<open>Route: the disposition actions\<close>

lemma fulfill_body_error:
  "fulfill_body L H body path = Inl e \<Longrightarrow> e = UnicodeEncodeError \<or> e = OSError"
  by (auto simp: fulfill_body_def split: option.splits body.splits if_splits)

lemma Route_fulfill_params_error:
  "Route_fulfill_params L H status headers body path contentType = Inl e
     \<Longrightarrow> e = UnicodeEncodeError \<or> e = OSError"
  by (auto simp: Route_fulfill_params_def split: sum.splits dest: fulfill_body_error)

lemma Route_continue_overrides_error:
  "Route_continue_overrides L m headers postData = Inl e \<Longrightarrow> e = UnicodeEncodeError"
  by (auto simp: Route_continue_overrides_def split: option.splits body.splits sum.splits)

text \<open>
  C1 as stated fails: a second \<open>abort\<close> on a route whose first \<open>abort\<close> has completed is
  sent to the remote side like the first, and returns normally when the remote side
  accepts it.
\<close>

theorem Route_second_action_counterexample:
  "Route_abort accept_all example_route None [] = (Inr (), [(''route@1'', ''abort'', AbortParams None)])
   \<and> Route_abort accept_all example_route None [(''route@1'', ''abort'', AbortParams None)]
       = (Inr (), [(''route@1'', ''abort'', AbortParams None),
                   (''route@1'', ''abort'', AbortParams None)])"
  by (simp add: Route_abort_def send_def accept_all_def example_route_def)

text \<open>
  C1, amended. No action of a route looks at the calls issued before. \<open>abort\<close> always
  issues its remote call; \<open>continue_\<close> and \<open>fulfill\<close> issue theirs unless preparing the
  parameters fails (encoding a text body, reading the file), in which case nothing is
  sent. The outcome of an action that was sent is the remote side's answer, a failure
  being \<open>RemoteCallFailure\<close>; no action raises \<open>ProtocolViolation\<close>.
\<close>

theorem Route_actions_unguarded:
  "Route_abort R self errorCode calls =
     ((case R calls (route_guid self, ''abort'', AbortParams errorCode) of
         Inl e \<Rightarrow> Inl (RemoteCallFailure e) | Inr r \<Rightarrow> Inr ()),
      calls @ [(route_guid self, ''abort'', AbortParams errorCode)])
   \<and> Route_continue L R self m headers postData calls =
       (case Route_continue_overrides L m headers postData of
          Inl e \<Rightarrow> (Inl UnicodeEncodeError, calls)
        | Inr overrides \<Rightarrow>
            ((case R calls (route_guid self, ''continue'', ContinueParams overrides) of
                Inl e \<Rightarrow> Inl (RemoteCallFailure e) | Inr r \<Rightarrow> Inr ()),
             calls @ [(route_guid self, ''continue'', ContinueParams overrides)]))
   \<and> Route_fulfill L H R self status headers body path contentType calls =
       (case Route_fulfill_params L H status headers body path contentType of
          Inl e \<Rightarrow> (Inl e, calls)
        | Inr params \<Rightarrow>
            ((case R calls (route_guid self, ''fulfill'', FulfillParams params) of
                Inl e \<Rightarrow> Inl (RemoteCallFailure e) | Inr r \<Rightarrow> Inr ()),
             calls @ [(route_guid self, ''fulfill'', FulfillParams params)]))
   \<and> fst (Route_abort R self errorCode calls) \<noteq> Inl ProtocolViolation
   \<and> fst (Route_continue L R self m headers postData calls) \<noteq> Inl ProtocolViolation
   \<and> fst (Route_fulfill L H R self status headers body path contentType calls)
       \<noteq> Inl ProtocolViolation"
proof -
  have abort: "Route_abort R self errorCode calls =
     ((case R calls (route_guid self, ''abort'', AbortParams errorCode) of
         Inl e \<Rightarrow> Inl (RemoteCallFailure e) | Inr r \<Rightarrow> Inr ()),
      calls @ [(route_guid self, ''abort'', AbortParams errorCode)])"
    by (simp add: Route_abort_def send_def split: sum.splits)
  have continue: "Route_continue L R self m headers postData calls =
       (case Route_continue_overrides L m headers postData of
          Inl e \<Rightarrow> (Inl UnicodeEncodeError, calls)
        | Inr overrides \<Rightarrow>
            ((case R calls (route_guid self, ''continue'', ContinueParams overrides) of
                Inl e \<Rightarrow> Inl (RemoteCallFailure e) | Inr r \<Rightarrow> Inr ()),
             calls @ [(route_guid self, ''continue'', ContinueParams overrides)]))"
    by (auto simp: Route_continue_def send_def split: sum.splits
             dest: Route_continue_overrides_error)
  have fulfill: "Route_fulfill L H R self status headers body path contentType calls =
       (case Route_fulfill_params L H status headers body path contentType of
          Inl e \<Rightarrow> (Inl e, calls)
        | Inr params \<Rightarrow>
            ((case R calls (route_guid self, ''fulfill'', FulfillParams params) of
                Inl e \<Rightarrow> Inl (RemoteCallFailure e) | Inr r \<Rightarrow> Inr ()),
             calls @ [(route_guid self, ''fulfill'', FulfillParams params)]))"
    by (simp add: Route_fulfill_def send_def split: sum.splits)
  have "fst (Route_abort R self errorCode calls) \<noteq> Inl ProtocolViolation"
    unfolding abort by (simp split: sum.splits)
  moreover have "fst (Route_continue L R self m headers postData calls) \<noteq> Inl ProtocolViolation"
    unfolding continue by (simp split: sum.splits)
  moreover have "fst (Route_fulfill L H R self status headers body path contentType calls)
       \<noteq> Inl ProtocolViolation"
    unfolding fulfill
    by (auto split: sum.splits dest: Route_fulfill_params_error)
  ultimately show ?thesis
    using abort continue fulfill by simp
qed

section \<open>Response: the body\<close>

text \<open>
  C6 as stated fails: two calls of \<open>body()\<close> on one response issue two remote calls.
\<close>

theorem Response_body_cache_counterexample:
  "Response_body cpython reply_hi example_response []
     = (Inr [0x68, 0x69], [(''response@1'', ''body'', NoParams)])
   \<and> Response_body cpython reply_hi example_response [(''response@1'', ''body'', NoParams)]
     = (Inr [0x68, 0x69], [(''response@1'', ''body'', NoParams), (''response@1'', ''body'', NoParams)])"
  by code_simp

text \<open>
  C6, amended. Nothing is cached: every call of \<open>body()\<close> issues one remote call and
  returns what the reply to that call decodes to. A second call returns the same as the
  first when the remote side answers it as it answered the first.
\<close>

theorem Response_body_refetch:
  "snd (Response_body L R self calls) = calls @ [(response_guid self, ''body'', NoParams)]
   \<and> fst (Response_body L R self calls) =
       (case R calls (response_guid self, ''body'', NoParams) of
          Inl e \<Rightarrow> Inl (RemoteCallFailure e)
        | Inr NoReply \<Rightarrow> Inl TypeError
        | Inr (Binary binary) \<Rightarrow>
            (case b64decode L binary of None \<Rightarrow> Inl ValueError | Some data \<Rightarrow> Inr data))
   \<and> (R (calls @ [(response_guid self, ''body'', NoParams)]) (response_guid self, ''body'', NoParams)
         = R calls (response_guid self, ''body'', NoParams)
       \<longrightarrow> fst (Response_body L R self (snd (Response_body L R self calls)))
           = fst (Response_body L R self calls))"
proof -
  have calls: "snd (Response_body L R self calls) = calls @ [(response_guid self, ''body'', NoParams)]"
    for calls
    by (simp add: Response_body_def send_def split: sum.splits reply.splits option.splits)
  have result: "fst (Response_body L R self calls) =
       (case R calls (response_guid self, ''body'', NoParams) of
          Inl e \<Rightarrow> Inl (RemoteCallFailure e)
        | Inr NoReply \<Rightarrow> Inl TypeError
        | Inr (Binary binary) \<Rightarrow>
            (case b64decode L binary of None \<Rightarrow> Inl ValueError | Some data \<Rightarrow> Inr data))"
    for calls
    by (simp add: Response_body_def send_def split: sum.splits reply.splits option.splits)
  show ?thesis
    by (simp add: calls result)
qed

theorem Response_body_refetch_witness:
  "reply_hi ([] @ [(response_guid example_response, ''body'', NoParams)])
       (response_guid example_response, ''body'', NoParams)
     = reply_hi [] (response_guid example_response, ''body'', NoParams)
   \<and> fst (Response_body cpython reply_hi example_response
            (snd (Response_body cpython reply_hi example_response [])))
     = fst (Response_body cpython reply_hi example_response [])
   \<and> snd (Response_body cpython reply_hi example_response [])
     = [(''response@1'', ''body'', NoParams)]"
proof -
  note body = Response_body_refetch [of cpython reply_hi example_response "[]"]
  have same: "reply_hi ([] @ [(response_guid example_response, ''body'', NoParams)])
       (response_guid example_response, ''body'', NoParams)
     = reply_hi [] (response_guid example_response, ''body'', NoParams)"
    by (simp add: reply_hi_def)
  from body same
  have "fst (Response_body cpython reply_hi example_response
            (snd (Response_body cpython reply_hi example_response [])))
     = fst (Response_body cpython reply_hi example_response [])"
    by blast
  moreover from body
  have "snd (Response_body cpython reply_hi example_response [])
     = [(''response@1'', ''body'', NoParams)]"
    by (simp add: example_response_def)
  ultimately show ?thesis using same by blast
qed

section \<open>Route: the parameters of fulfill\<close>

lemma distinct_fulfill_headers:
  "distinct (map fst (fulfill_headers L H headers path contentType len))"
  by (auto simp: fulfill_headers_def Let_def distinct_dict_of distinct_dict_setitem
      split: option.splits)

lemma dict_contains_map_of: "dict_contains k d \<longleftrightarrow> map_of d k \<noteq> None"
  by (simp add: dict_contains_def dict_keys_def map_of_eq_None_iff)

lemma fulfill_headers_content_type:
  "map_of (fulfill_headers L H headers path contentType len) ''content-type'' =
     (let caller = map_of (rev (map (\<lambda>(k, v). (str_lower L k, v))
                                  (case headers of None \<Rightarrow> [] | Some d \<Rightarrow> d))) ''content-type'';
          from_path =
            (case path of
               None \<Rightarrow> caller
             | Some q \<Rightarrow>
                 if truthy_path q
                 then Some (case guess_type H q of
                              None \<Rightarrow> ''application/octet-stream''
                            | Some g \<Rightarrow> if g = [] then ''application/octet-stream'' else g)
                 else caller)
      in case contentType of
           None \<Rightarrow> from_path
         | Some ct \<Rightarrow> if ct \<noteq> [] then Some ct else from_path)"
  by (simp add: fulfill_headers_def Let_def map_of_dict_setitem map_of_dict_of
      split: option.splits)

lemma fulfill_headers_content_length:
  "map_of (fulfill_headers L H headers path contentType len) ''content-length'' =
     (case map_of (rev (map (\<lambda>(k, v). (str_lower L k, v))
                          (case headers of None \<Rightarrow> [] | Some d \<Rightarrow> d))) ''content-length'' of
        Some v \<Rightarrow> Some v
      | None \<Rightarrow> if len = 0 then None else Some (str_nat len))"
  by (simp add: fulfill_headers_def Let_def map_of_dict_setitem map_of_dict_of
      dict_contains_map_of split: option.splits)



lemma Route_fulfill_params_Inr:
  assumes "Route_fulfill_params L H status headers body path contentType = Inr p"
  obtains params_body params_isBase64 params_path len where
    "fulfill_body L H body path = Inr (params_body, params_isBase64, params_path, len)"
    "p_headers p = serialize_headers (fulfill_headers L H headers path contentType len)"
    "p_body p = params_body" "p_isBase64 p = params_isBase64" "p_path p = params_path"
    "p_status p = status" "p_contentType p = contentType"
  using assms by (auto simp: Route_fulfill_params_def split: sum.splits)

lemma Route_fulfill_sends:
  assumes "Route_fulfill_params L H status headers body path contentType = Inr p"
  shows "snd (Route_fulfill L H R self status headers body path contentType calls)
    = calls @ [(route_guid self, ''fulfill'', FulfillParams p)]"
  by (simp add: Route_fulfill_def assms send_def split: sum.splits)

lemma sent_headers_lookup:
  assumes "p_headers p = serialize_headers (fulfill_headers L H headers path contentType len)"
  shows "dict_get (parse_headers (p_headers p)) k
    = map_of (fulfill_headers L H headers path contentType len) k"
  by (simp add: assms dict_get_def parse_headers_serialize distinct_fulfill_headers)

text \<open>
  C4 as stated fails in its last case: with neither \<open>contentType\<close> nor \<open>path\<close>, a
  content-type header of the caller is sent on (under its lower-cased name), so the
  content-type is set.
\<close>

theorem fulfill_content_type_counterexample:
  "Route_fulfill_params cpython example_host None (Some [(''Content-Type'', ''text/html'')])
       None None None
     = Inr \<lparr>p_status = None,
            p_headers = [\<lparr>h_name = ''content-type'', h_value = ''text/html''\<rparr>],
            p_body = None, p_path = None, p_contentType = None, p_isBase64 = None\<rparr>"
  by code_simp

text \<open>
  C4, amended. The content-type that \<open>fulfill\<close> sends is resolved in this order: a
  \<open>contentType\<close> argument that is not empty wins and replaces a content-type header of
  the caller; otherwise, when a path is given (not the empty string), the type guessed
  from the path is sent, \<open>application/octet-stream\<close> when there is no guess, also in
  place of a content-type header of the caller; otherwise the content-type is the value
  of the caller's header whose lower-cased name is \<open>content-type\<close> (the last one of
  them), and unset when there is none. The sent list has every name once.
\<close>

theorem fulfill_content_type_resolution:
  assumes "Route_fulfill_params L H status headers body path contentType = Inr p"
  shows "dict_get (parse_headers (p_headers p)) ''content-type'' =
     (let caller = map_of (rev (map (\<lambda>(k, v). (str_lower L k, v))
                                  (case headers of None \<Rightarrow> [] | Some d \<Rightarrow> d))) ''content-type'';
          from_path =
            (case path of
               None \<Rightarrow> caller
             | Some q \<Rightarrow>
                 if truthy_path q
                 then Some (case guess_type H q of
                              None \<Rightarrow> ''application/octet-stream''
                            | Some g \<Rightarrow> if g = [] then ''application/octet-stream'' else g)
                 else caller)
      in case contentType of
           None \<Rightarrow> from_path
         | Some ct \<Rightarrow> if ct \<noteq> [] then Some ct else from_path)
    \<and> distinct (map h_name (p_headers p))"
proof -
  from assms obtain len where
    sent: "p_headers p = serialize_headers (fulfill_headers L H headers path contentType len)"
    by (rule Route_fulfill_params_Inr)
  have "distinct (map h_name (p_headers p))"
    by (simp add: sent names_serialize_headers distinct_fulfill_headers)
  then show ?thesis
    by (simp only: sent_headers_lookup [OF sent] fulfill_headers_content_type simp_thms)
qed

theorem fulfill_content_type_resolution_witness:
  "(\<exists>p. Route_fulfill_params cpython example_host None None None (Some (PathStr ''icon.png'')) None
          = Inr p
        \<and> dict_get (parse_headers (p_headers p)) ''content-type'' = Some ''image/png'')
   \<and> (\<exists>p. Route_fulfill_params cpython example_host None None None
            (Some (PathStr ''data.unknown'')) None = Inr p
        \<and> dict_get (parse_headers (p_headers p)) ''content-type''
            = Some ''application/octet-stream'')
   \<and> (\<exists>p. Route_fulfill_params cpython example_host None
            (Some [(''Content-Type'', ''text/html'')]) None (Some (PathStr ''icon.png''))
            (Some ''text/plain'') = Inr p
        \<and> dict_get (parse_headers (p_headers p)) ''content-type'' = Some ''text/plain''
        \<and> distinct (map h_name (p_headers p)))"
proof -
  have ok: "\<exists>p. Route_fulfill_params cpython example_host None hs None (Some (PathStr f)) ct = Inr p"
    if "f = ''icon.png'' \<or> f = ''data.unknown''" for hs f ct
    using that
    by (auto simp: Route_fulfill_params_def fulfill_body_def example_host_def)
  from ok [of "''icon.png''" None None] obtain p1 where
    p1: "Route_fulfill_params cpython example_host None None None (Some (PathStr ''icon.png'')) None
          = Inr p1" by auto
  from ok [of "''data.unknown''" None None] obtain p2 where
    p2: "Route_fulfill_params cpython example_host None None None
           (Some (PathStr ''data.unknown'')) None = Inr p2" by auto
  from ok [of "''icon.png''" "Some [(''Content-Type'', ''text/html'')]" "Some ''text/plain''"]
  obtain p3 where
    p3: "Route_fulfill_params cpython example_host None
            (Some [(''Content-Type'', ''text/html'')]) None (Some (PathStr ''icon.png''))
            (Some ''text/plain'') = Inr p3" by auto
  from fulfill_content_type_resolution [OF p1]
  have "dict_get (parse_headers (p_headers p1)) ''content-type'' = Some ''image/png''"
    by (simp add: example_host_def)
  moreover from fulfill_content_type_resolution [OF p2]
  have "dict_get (parse_headers (p_headers p2)) ''content-type''
      = Some ''application/octet-stream''"
    by (simp add: example_host_def)
  moreover from fulfill_content_type_resolution [OF p3]
  have "dict_get (parse_headers (p_headers p3)) ''content-type'' = Some ''text/plain''
      \<and> distinct (map h_name (p_headers p3))"
    by simp
  ultimately show ?thesis using p1 p2 p3 by blast
qed

text \<open>
  C5 as stated fails for a body of no bytes: \<open>fulfill(body="")\<close> sends no
  content-length header although the caller supplied none.
\<close>

theorem fulfill_content_length_counterexample:
  "Route_fulfill_params cpython example_host None None (Some (Text [])) None None
     = Inr \<lparr>p_status = None, p_headers = [], p_body = Some [], p_path = None,
            p_contentType = None, p_isBase64 = Some False\<rparr>"
  by code_simp

text \<open>
  C5, amended. A text body is sent as it is with \<open>isBase64 = false\<close>; a bytes body is
  sent base64-encoded with \<open>isBase64 = true\<close>, whether or not a path is given as well;
  with no body and a path (not the empty string) the bytes of the file are sent
  base64-encoded with \<open>isBase64 = true\<close>. With \<open>len\<close> the number of bytes of that body
  (of the UTF-8 encoding for a text body, 0 when there is no body), the content-length
  sent is the caller's own when one of the caller's header names is \<open>content-length\<close>
  after lower-casing; otherwise it is the decimal \<open>len\<close> when \<open>len\<close> is not 0, and there
  is no content-length header when \<open>len\<close> is 0.
\<close>

theorem fulfill_body_and_content_length:
  assumes "Route_fulfill_params L H status headers body path contentType = Inr p"
  shows "\<exists>len.
     (case body of
        Some (Text t) \<Rightarrow>
          p_body p = Some t \<and> p_isBase64 p = Some False
          \<and> map_option length (str_encode L t) = Some len
      | Some (Bytes b) \<Rightarrow>
          p_body p = Some (b64encode L b) \<and> p_isBase64 p = Some True \<and> len = length b
      | None \<Rightarrow>
          (case path of
             None \<Rightarrow> p_body p = None \<and> p_isBase64 p = None \<and> len = 0
           | Some q \<Rightarrow>
               if truthy_path q
               then p_body p = map_option (b64encode L) (read_bytes H q) \<and> p_body p \<noteq> None
                    \<and> p_isBase64 p = Some True
                    \<and> map_option length (read_bytes H q) = Some len
               else p_body p = None \<and> p_isBase64 p = None \<and> len = 0))
     \<and> dict_get (parse_headers (p_headers p)) ''content-length'' =
         (case map_of (rev (map (\<lambda>(k, v). (str_lower L k, v))
                              (case headers of None \<Rightarrow> [] | Some d \<Rightarrow> d))) ''content-length'' of
            Some v \<Rightarrow> Some v
          | None \<Rightarrow> if len = 0 then None else Some (str_nat len))"
proof -
  from assms obtain params_body params_isBase64 params_path len where
    body: "fulfill_body L H body path = Inr (params_body, params_isBase64, params_path, len)"
    and sent: "p_headers p = serialize_headers (fulfill_headers L H headers path contentType len)"
    and p: "p_body p = params_body" "p_isBase64 p = params_isBase64"
    by (rule Route_fulfill_params_Inr)
  have "case body of
        Some (Text t) \<Rightarrow>
          p_body p = Some t \<and> p_isBase64 p = Some False
          \<and> map_option length (str_encode L t) = Some len
      | Some (Bytes b) \<Rightarrow>
          p_body p = Some (b64encode L b) \<and> p_isBase64 p = Some True \<and> len = length b
      | None \<Rightarrow>
          (case path of
             None \<Rightarrow> p_body p = None \<and> p_isBase64 p = None \<and> len = 0
           | Some q \<Rightarrow>
               if truthy_path q
               then p_body p = map_option (b64encode L) (read_bytes H q) \<and> p_body p \<noteq> None
                    \<and> p_isBase64 p = Some True
                    \<and> map_option length (read_bytes H q) = Some len
               else p_body p = None \<and> p_isBase64 p = None \<and> len = 0)"
    using body
    by (auto simp: fulfill_body_def p split: option.splits body.splits if_splits)
  moreover have "dict_get (parse_headers (p_headers p)) ''content-length'' =
         (case map_of (rev (map (\<lambda>(k, v). (str_lower L k, v))
                              (case headers of None \<Rightarrow> [] | Some d \<Rightarrow> d))) ''content-length'' of
            Some v \<Rightarrow> Some v
          | None \<Rightarrow> if len = 0 then None else Some (str_nat len))"
    by (simp only: sent_headers_lookup [OF sent] fulfill_headers_content_length)
  ultimately show ?thesis by blast
qed

theorem fulfill_body_and_content_length_witness:
  "(\<exists>p. Route_fulfill_params cpython example_host None None (Some (Text ''hello'')) None None
          = Inr p
        \<and> p_body p = Some ''hello'' \<and> p_isBase64 p = Some False
        \<and> dict_get (parse_headers (p_headers p)) ''content-length'' = Some ''5'')
   \<and> (\<exists>p. Route_fulfill_params cpython example_host None None (Some (Bytes [0x01, 0x02]))
            (Some (PathStr ''icon.png'')) None = Inr p
        \<and> p_body p = Some ''AQI='' \<and> p_isBase64 p = Some True
        \<and> dict_get (parse_headers (p_headers p)) ''content-length'' = Some ''2'')
   \<and> (\<exists>p. Route_fulfill_params cpython example_host None (Some [(''Content-Length'', ''7'')])
            (Some (Text ''hello'')) None None = Inr p
        \<and> dict_get (parse_headers (p_headers p)) ''content-length'' = Some ''7'')"
proof -
  have enc: "str_encode cpython ''hello'' = Some [0x68, 0x65, 0x6c, 0x6c, 0x6f]"
    by code_simp
  have b64: "b64encode cpython [0x01, 0x02] = ''AQI=''"
    by code_simp
  have low: "str_lower cpython ''Content-Length'' = ''content-length''"
    by code_simp
  have five: "str_nat (Suc (Suc (Suc (Suc (Suc 0))))) = ''5''"
    and two: "str_nat (Suc (Suc 0)) = ''2''"
    by code_simp+
  obtain p1 where
    p1: "Route_fulfill_params cpython example_host None None (Some (Text ''hello'')) None None
          = Inr p1"
    by (simp add: Route_fulfill_params_def fulfill_body_def enc)
  obtain p2 where
    p2: "Route_fulfill_params cpython example_host None None (Some (Bytes [0x01, 0x02]))
            (Some (PathStr ''icon.png'')) None = Inr p2"
    by (simp add: Route_fulfill_params_def fulfill_body_def)
  obtain p3 where
    p3: "Route_fulfill_params cpython example_host None (Some [(''Content-Length'', ''7'')])
            (Some (Text ''hello'')) None None = Inr p3"
    by (simp add: Route_fulfill_params_def fulfill_body_def enc)
  from fulfill_body_and_content_length [OF p1]
  have "p_body p1 = Some ''hello'' \<and> p_isBase64 p1 = Some False
        \<and> dict_get (parse_headers (p_headers p1)) ''content-length'' = Some ''5''"
    by (auto simp: enc five)
  moreover from fulfill_body_and_content_length [OF p2]
  have "p_body p2 = Some ''AQI='' \<and> p_isBase64 p2 = Some True
        \<and> dict_get (parse_headers (p_headers p2)) ''content-length'' = Some ''2''"
    by (auto simp: b64 two)
  moreover from fulfill_body_and_content_length [OF p3]
  have "dict_get (parse_headers (p_headers p3)) ''content-length'' = Some ''7''"
    by (auto simp: low)
  ultimately show ?thesis using p1 p2 p3 by blast
qed

section \<open>Header names and their case\<close>




end
